theory Spec2Isabelle
  imports Complex_Main
begin

section \<open>Numbers\<close>

text \<open>
  Every numeric value of the program is a JavaScript \<open>number\<close>. The model keeps the three
  kinds of value on which the control flow of the analysis code depends: \<open>NaN\<close>, the two
  infinities, and the finite numbers. A finite number is an exact real: rounding to 53 bits
  is not modelled, and \<open>-0\<close> is identified with \<open>0\<close>. The two compare equal in
  JavaScript and differ only as divisors; in the code below a divisor is \<open>-0\<close> only when the
  rounded mean of a series with negative samples is, or when the rider weight is.
\<close>

datatype jsnum = NaN | PosInf | NegInf | Fin real

fun isNaN :: "jsnum \<Rightarrow> bool" where
  "isNaN NaN = True"
| "isNaN _ = False"

fun js_neg :: "jsnum \<Rightarrow> jsnum" where
  "js_neg NaN = NaN"
| "js_neg PosInf = NegInf"
| "js_neg NegInf = PosInf"
| "js_neg (Fin a) = Fin (- a)"

fun js_add :: "jsnum \<Rightarrow> jsnum \<Rightarrow> jsnum" where
  "js_add NaN _ = NaN"
| "js_add _ NaN = NaN"
| "js_add PosInf NegInf = NaN"
| "js_add NegInf PosInf = NaN"
| "js_add PosInf _ = PosInf"
| "js_add _ PosInf = PosInf"
| "js_add NegInf _ = NegInf"
| "js_add _ NegInf = NegInf"
| "js_add (Fin a) (Fin b) = Fin (a + b)"

definition js_sub :: "jsnum \<Rightarrow> jsnum \<Rightarrow> jsnum" where
  "js_sub x y = js_add x (js_neg y)"

text \<open>The sign of an infinite product or quotient: \<open>inf_signed neg\<close>.\<close>

definition inf_signed :: "bool \<Rightarrow> jsnum" where
  "inf_signed neg = (if neg then NegInf else PosInf)"

fun js_mul :: "jsnum \<Rightarrow> jsnum \<Rightarrow> jsnum" where
  "js_mul NaN _ = NaN"
| "js_mul _ NaN = NaN"
| "js_mul PosInf PosInf = PosInf"
| "js_mul PosInf NegInf = NegInf"
| "js_mul NegInf PosInf = NegInf"
| "js_mul NegInf NegInf = PosInf"
| "js_mul PosInf (Fin b) = (if b = 0 then NaN else inf_signed (b < 0))"
| "js_mul NegInf (Fin b) = (if b = 0 then NaN else inf_signed (0 < b))"
| "js_mul (Fin a) PosInf = (if a = 0 then NaN else inf_signed (a < 0))"
| "js_mul (Fin a) NegInf = (if a = 0 then NaN else inf_signed (0 < a))"
| "js_mul (Fin a) (Fin b) = Fin (a * b)"

text \<open>Division by zero gives an infinity, or \<open>NaN\<close> for \<open>0 / 0\<close>; the divisor \<open>0\<close> is \<open>+0\<close>.\<close>

fun js_div :: "jsnum \<Rightarrow> jsnum \<Rightarrow> jsnum" where
  "js_div NaN _ = NaN"
| "js_div _ NaN = NaN"
| "js_div PosInf (Fin b) = inf_signed (b < 0)"
| "js_div NegInf (Fin b) = inf_signed (0 \<le> b)"
| "js_div PosInf _ = NaN"
| "js_div NegInf _ = NaN"
| "js_div (Fin a) PosInf = Fin 0"
| "js_div (Fin a) NegInf = Fin 0"
| "js_div (Fin a) (Fin b) =
     (if b = 0 then (if a = 0 then NaN else inf_signed (a < 0)) else Fin (a / b))"

fun js_lt :: "jsnum \<Rightarrow> jsnum \<Rightarrow> bool" where
  "js_lt NaN _ = False"
| "js_lt _ NaN = False"
| "js_lt _ NegInf = False"
| "js_lt PosInf _ = False"
| "js_lt NegInf _ = True"
| "js_lt _ PosInf = True"
| "js_lt (Fin a) (Fin b) = (a < b)"

definition js_gt :: "jsnum \<Rightarrow> jsnum \<Rightarrow> bool" where
  "js_gt x y = js_lt y x"

fun js_le :: "jsnum \<Rightarrow> jsnum \<Rightarrow> bool" where
  "js_le NaN _ = False"
| "js_le _ NaN = False"
| "js_le NegInf _ = True"
| "js_le _ PosInf = True"
| "js_le _ NegInf = False"
| "js_le PosInf _ = False"
| "js_le (Fin a) (Fin b) = (a \<le> b)"

definition js_ge :: "jsnum \<Rightarrow> jsnum \<Rightarrow> bool" where
  "js_ge x y = js_le y x"

text \<open>The number of a length or an index.\<close>

definition num :: "nat \<Rightarrow> jsnum" where
  "num n = Fin (real n)"

subsection \<open>The \<open>Math\<close> functions the code calls\<close>

fun Math_abs :: "jsnum \<Rightarrow> jsnum" where
  "Math_abs NaN = NaN"
| "Math_abs PosInf = PosInf"
| "Math_abs NegInf = PosInf"
| "Math_abs (Fin a) = Fin \<bar>a\<bar>"

text \<open>\<open>Math.round\<close> rounds to the nearest integer, a half towards \<open>+\<infinity>\<close>.\<close>

fun Math_round :: "jsnum \<Rightarrow> jsnum" where
  "Math_round (Fin a) = Fin (of_int \<lfloor>a + 1 / 2\<rfloor>)"
| "Math_round x = x"

fun Math_sqrt :: "jsnum \<Rightarrow> jsnum" where
  "Math_sqrt NaN = NaN"
| "Math_sqrt PosInf = PosInf"
| "Math_sqrt NegInf = NaN"
| "Math_sqrt (Fin a) = (if a < 0 then NaN else Fin (sqrt a))"

text \<open>\<open>Math.pow(x, n)\<close> for the integer exponents \<open>2\<close> and \<open>4\<close> of the code.\<close>

fun Math_pow_nat :: "jsnum \<Rightarrow> nat \<Rightarrow> jsnum" where
  "Math_pow_nat NaN n = (if n = 0 then Fin 1 else NaN)"
| "Math_pow_nat PosInf n = (if n = 0 then Fin 1 else PosInf)"
| "Math_pow_nat NegInf n = (if n = 0 then Fin 1 else if odd n then NegInf else PosInf)"
| "Math_pow_nat (Fin a) n = Fin (a ^ n)"

text \<open>\<open>Math.pow(x, 0.25)\<close>: the fourth root, \<open>NaN\<close> on a negative finite base.\<close>

fun Math_pow_quarter :: "jsnum \<Rightarrow> jsnum" where
  "Math_pow_quarter NaN = NaN"
| "Math_pow_quarter PosInf = PosInf"
| "Math_pow_quarter NegInf = PosInf"
| "Math_pow_quarter (Fin a) = (if a < 0 then NaN else Fin (root 4 a))"

fun js_max2 :: "jsnum \<Rightarrow> jsnum \<Rightarrow> jsnum" where
  "js_max2 NaN _ = NaN"
| "js_max2 _ NaN = NaN"
| "js_max2 x y = (if js_lt x y then y else x)"

fun js_min2 :: "jsnum \<Rightarrow> jsnum \<Rightarrow> jsnum" where
  "js_min2 NaN _ = NaN"
| "js_min2 _ NaN = NaN"
| "js_min2 x y = (if js_lt y x then y else x)"

text \<open>\<open>Math.max(...xs)\<close> and \<open>Math.min(...xs)\<close>: \<open>-Infinity\<close> and \<open>Infinity\<close> on no argument.\<close>

definition Math_max :: "jsnum list \<Rightarrow> jsnum" where
  "Math_max xs = foldl js_max2 NegInf xs"

definition Math_min :: "jsnum list \<Rightarrow> jsnum" where
  "Math_min xs = foldl js_min2 PosInf xs"

text \<open>
  \<open>parseFloat(x.toFixed(d))\<close> and \<open>Number(x.toFixed(d))\<close>: the decimal numeral with \<open>d\<close>
  fraction digits nearest to \<open>x\<close> (a tie away from zero), read back as a number. From
  \<open>10\<^sup>2\<^sup>1\<close> on \<open>toFixed\<close> prints the number itself.
\<close>

fun toFixed_num :: "nat \<Rightarrow> jsnum \<Rightarrow> jsnum" where
  "toFixed_num d (Fin a) =
     (if 10 ^ 21 \<le> \<bar>a\<bar> then Fin a
      else Fin (sgn a * of_int \<lfloor>\<bar>a\<bar> * 10 ^ d + 1 / 2\<rfloor> / 10 ^ d))"
| "toFixed_num d x = x"

text \<open>\<open>xs.reduce((a, b) => a + b, 0)\<close>.\<close>

definition js_sum :: "jsnum list \<Rightarrow> jsnum" where
  "js_sum xs = foldl js_add (Fin 0) xs"

section \<open>Text built from numbers\<close>

text \<open>
  A template literal or a formatted number is kept as the list of its parts, in order:
  literal text, a number converted by string interpolation, and \<open>x.toFixed(d)\<close>. How
  ECMAScript prints a number is not modelled.
\<close>

datatype piece = Lit string | Num jsnum | Fixed nat jsnum

type_synonym template = "piece list"

section \<open>Segment extraction\<close>

text \<open>
  \<open>xs.slice(start, end)\<close> with numeric arguments: each argument is truncated to an integer
  (\<open>NaN\<close> is \<open>0\<close>), a negative one counts from the end, and both are clamped to the array.
\<close>

fun slice_index :: "nat \<Rightarrow> jsnum \<Rightarrow> nat" where
  "slice_index len NaN = 0"
| "slice_index len PosInf = len"
| "slice_index len NegInf = 0"
| "slice_index len (Fin a) =
     (let t = (if 0 \<le> a then \<lfloor>a\<rfloor> else \<lceil>a\<rceil>)
      in if t < 0 then nat (max (int len + t) 0) else min (nat t) len)"

definition js_slice :: "jsnum \<Rightarrow> jsnum \<Rightarrow> 'a list \<Rightarrow> 'a list" where
  "js_slice start end xs =
     (let k = slice_index (length xs) start;
          final = slice_index (length xs) end
      in take (final - k) (drop k xs))"

record SegmentInfo =
  startTime :: jsnum
  duration :: jsnum
  reason :: template

text \<open>
  The result of \<open>extractBestFTPSegment\<close>; its series carry the prefix \<open>seg_\<close>. An optional
  series is \<open>None\<close> when the caller passes none; \<open>targetDurationMinutes\<close> is always passed
  (the source defaults it to 20).
\<close>

record Segment =
  seg_power :: "jsnum list"
  seg_heartRate :: "jsnum list option"
  seg_speed :: "jsnum list option"
  seg_distance :: "jsnum list option"
  seg_elevation :: "jsnum list option"
  segmentInfo :: SegmentInfo

text \<open>
  The search loop \<open>for (i = 0; i <= powerData.length - windowSize; i += 30)\<close>, with the
  running \<open>bestAverage\<close> and \<open>bestStartIndex\<close>. On \<open>windowSize = -Infinity\<close> the bound is
  \<open>Infinity\<close> and the loop does not end: the result is \<open>None\<close> then.
\<close>

partial_function (option) best_segment_loop ::
  "jsnum list \<Rightarrow> jsnum \<Rightarrow> nat \<Rightarrow> jsnum \<Rightarrow> nat \<Rightarrow> (jsnum \<times> nat) option" where
  "best_segment_loop powerData windowSize i bestAverage bestStartIndex =
     (if js_le (num i) (js_sub (num (length powerData)) windowSize) then
        (let segment = js_slice (num i) (js_add (num i) windowSize) powerData;
             segmentAverage = js_div (js_sum segment) (num (length segment))
         in if js_gt segmentAverage bestAverage
            then best_segment_loop powerData windowSize (i + 30) segmentAverage i
            else best_segment_loop powerData windowSize (i + 30) bestAverage bestStartIndex)
      else Some (bestAverage, bestStartIndex))"

definition extractBestFTPSegment ::
  "jsnum list \<Rightarrow> jsnum list option \<Rightarrow> jsnum \<Rightarrow> jsnum list option \<Rightarrow> jsnum list option \<Rightarrow>
   jsnum list option \<Rightarrow> Segment option" where
  "extractBestFTPSegment powerData heartRateData targetDurationMinutes speedData distanceData
     elevationData =
     (let targetSeconds = js_mul targetDurationMinutes (Fin 60);
          dataLengthMinutes = js_div (num (length powerData)) (Fin 60)
      in if js_le (num (length powerData)) (js_mul targetSeconds (Fin (125 / 100))) \<and>
            js_ge (num (length powerData)) (js_mul targetSeconds (Fin (75 / 100)))
         then Some \<lparr> seg_power = powerData,
                      seg_heartRate = heartRateData,
                      seg_speed = speedData,
                      seg_distance = distanceData,
                      seg_elevation = elevationData,
                      segmentInfo =
                        \<lparr> startTime = Fin 0,
                           duration = num (length powerData),
                           reason = [Lit ''Full '', Num (Math_round dataLengthMinutes),
                                     Lit ''-minute workout used (close to '',
                                     Num targetDurationMinutes, Lit ''-minute target)''] \<rparr> \<rparr>
         else if js_lt (num (length powerData)) (js_mul targetSeconds (Fin (75 / 100)))
         then Some \<lparr> seg_power = powerData,
                      seg_heartRate = heartRateData,
                      seg_speed = speedData,
                      seg_distance = distanceData,
                      seg_elevation = elevationData,
                      segmentInfo =
                        \<lparr> startTime = Fin 0,
                           duration = num (length powerData),
                           reason = [Lit ''Short '', Num (Math_round dataLengthMinutes),
                                     Lit ''-minute workout - using all available data''] \<rparr> \<rparr>
         else
           (let windowSize = targetSeconds in
            case best_segment_loop powerData windowSize 0 (Fin 0) 0 of
              None \<Rightarrow> None
            | Some (bestAverage, bestStartIndex) \<Rightarrow>
                (let cut = js_slice (num bestStartIndex) (js_add (num bestStartIndex) windowSize);
                     startTimeMinutes = Math_round (js_div (num bestStartIndex) (Fin 60));
                     endTimeMinutes =
                       Math_round (js_div (js_add (num bestStartIndex) windowSize) (Fin 60))
                 in Some \<lparr> seg_power = cut powerData,
                             seg_heartRate = map_option cut heartRateData,
                             seg_speed = map_option cut speedData,
                             seg_distance = map_option cut distanceData,
                             seg_elevation = map_option cut elevationData,
                             segmentInfo =
                               \<lparr> startTime = num bestStartIndex,
                                  duration = windowSize,
                                  reason = [Lit ''Best '', Num targetDurationMinutes,
                                            Lit ''-minute segment from '',
                                            Num (Math_round dataLengthMinutes),
                                            Lit ''-minute workout (minutes '', Num startTimeMinutes,
                                            Lit ''-'', Num endTimeMinutes, Lit '', avg '',
                                            Num (Math_round bestAverage), Lit ''w)''] \<rparr> \<rparr>)))"

section \<open>Statistics\<close>

datatype error = Error string

text \<open>
  The result of \<open>calculateStats\<close>. The fields \<open>max\<close> and \<open>min\<close> are \<open>max_val\<close> and
  \<open>min_val\<close> here; \<open>variabilityIndex\<close> is the string \<open>vi.toFixed(3)\<close>.
\<close>

record Stats =
  average :: jsnum
  normalized :: jsnum
  max_val :: jsnum
  min_val :: jsnum
  variabilityIndex :: piece
  stdDev :: jsnum
  classicFTP :: jsnum
  normalizedFTP :: jsnum
  intensityFactor :: jsnum

text \<open>
  The loop \<open>for (i = 0; i < powerData.length - 29; i++)\<close> pushing the mean of
  \<open>powerData.slice(i, i + 30)\<close>.
\<close>

definition rollingAvg30s :: "jsnum list \<Rightarrow> jsnum list" where
  "rollingAvg30s powerData =
     map (\<lambda>i. js_div (js_sum (take 30 (drop i powerData))) (Fin 30))
       [0 ..< length powerData - 29]"

definition calculateStats :: "jsnum list \<Rightarrow> error + Stats" where
  "calculateStats powerData =
     (if length powerData = 0 then Inl (Error ''Power data cannot be empty'')
      else
        let avg = js_div (js_sum powerData) (num (length powerData));
            mx = Math_max powerData;
            mn = Math_min powerData;
            normalizedPower =
              (if 30 \<le> length powerData then
                 (let rolling = rollingAvg30s powerData in
                  if 0 < length rolling then
                    (let fourthPowers = map (\<lambda>p. Math_pow_nat p 4) rolling;
                         avgFourth = js_div (js_sum fourthPowers) (num (length fourthPowers))
                     in Math_pow_quarter avgFourth)
                  else avg)
               else avg);
            vi = js_div normalizedPower avg;
            variance =
              js_div (foldl (\<lambda>sum val. js_add sum (Math_pow_nat (js_sub val avg) 2)) (Fin 0) powerData)
                (num (length powerData));
            sd = Math_sqrt variance
        in Inr \<lparr> average = Math_round avg,
                 normalized = Math_round normalizedPower,
                 max_val = mx,
                 min_val = mn,
                 variabilityIndex = Fixed 3 vi,
                 stdDev = Math_round sd,
                 classicFTP = Math_round (js_mul avg (Fin (95 / 100))),
                 normalizedFTP = Math_round (js_mul normalizedPower (Fin (95 / 100))),
                 intensityFactor = toFixed_num 3 vi \<rparr>)"

section \<open>Pacing\<close>

datatype insight_type = InsightError | InsightWarning | InsightSuccess | InsightInfo

record Insight =
  insight_type :: insight_type
  message :: template
  recommendation :: template

text \<open>The result of \<open>analyzePacing\<close>; \<open>fadePct\<close> is the string \<open>fadePct.toFixed(1)\<close>.\<close>

record PacingAnalysis =
  score :: int
  fadePct :: piece
  insights :: "Insight list"
  avgFirstQuarter :: jsnum
  avgLastQuarter :: jsnum
  wattsLost :: jsnum
  strategy :: string

text \<open>The deductions for fade and for a negative split, from \<open>score = 100\<close>.\<close>

definition score_after_fade :: "jsnum \<Rightarrow> int" where
  "score_after_fade fade =
     (let s0 = 100;
          s1 = (if js_gt fade (Fin 10) then s0 - 30
                else if js_gt fade (Fin 5) then s0 - 15
                else if js_gt fade (Fin 3) then s0 - 5
                else s0)
      in if js_lt fade (Fin (- 3)) then s1 - 10 else s1)"

text \<open>The deduction for variability.\<close>

definition score_after_cv :: "int \<Rightarrow> jsnum \<Rightarrow> int" where
  "score_after_cv s1 cvPct =
     (if js_gt cvPct (Fin 10) then s1 - 20
      else if js_gt cvPct (Fin 7) then s1 - 10
      else if js_gt cvPct (Fin 5) then s1 - 5
      else s1)"

definition fade_insights :: "jsnum \<Rightarrow> jsnum \<Rightarrow> Insight list" where
  "fade_insights fade avgFirst =
     (if js_gt fade (Fin 10) then
        [\<lparr> insight_type = InsightError,
            message = [Lit ''Significant power fade ('', Fixed 1 fade, Lit ''%) - started too hard''],
            recommendation =
              [Lit ''Start '', Num (Math_round (js_mul avgFirst (Fin (95 / 100)))),
               Lit ''w next time (not '', Num (Math_round avgFirst), Lit ''w)''] \<rparr>]
      else if js_gt fade (Fin 5) then
        [\<lparr> insight_type = InsightWarning,
            message = [Lit ''Moderate power fade ('', Fixed 1 fade, Lit ''%) detected''],
            recommendation = [Lit ''Consider starting 2-3% easier''] \<rparr>]
      else if js_lt fade (Fin (- 3)) then
        [\<lparr> insight_type = InsightInfo,
            message = [Lit ''Negative split detected - you got stronger''],
            recommendation = [Lit ''You could start slightly harder next time''] \<rparr>]
      else
        [\<lparr> insight_type = InsightSuccess,
            message = [Lit ''Excellent pacing strategy!''],
            recommendation = [Lit ''Maintain this approach in future tests''] \<rparr>])"

definition cv_insights :: "jsnum \<Rightarrow> Insight list" where
  "cv_insights cvPct =
     (if js_gt cvPct (Fin 10) then
        [\<lparr> insight_type = InsightError,
            message = [Lit ''Very high power variability (CV: '', Fixed 1 cvPct, Lit ''%)''],
            recommendation = [Lit ''Focus on steady-state effort, use ERG mode if available''] \<rparr>]
      else if js_gt cvPct (Fin 7) then
        [\<lparr> insight_type = InsightWarning,
            message = [Lit ''High power variability (CV: '', Fixed 1 cvPct, Lit ''%)''],
            recommendation = [Lit ''Work on holding steady power output''] \<rparr>]
      else [])"

definition analyzePacing :: "jsnum list \<Rightarrow> error + PacingAnalysis" where
  "analyzePacing powerData =
     (let firstQuarter = take (length powerData div 4) powerData;
          lastQuarter = drop (length powerData * 3 div 4) powerData;
          firstHalf = take (length powerData div 2) powerData;
          secondHalf = drop (length powerData div 2) powerData;
          avgFirst = js_div (js_sum firstQuarter) (num (length firstQuarter));
          avgLast = js_div (js_sum lastQuarter) (num (length lastQuarter));
          avgFirstHalf = js_div (js_sum firstHalf) (num (length firstHalf));
          avgSecondHalf = js_div (js_sum secondHalf) (num (length secondHalf));
          fade = js_mul (js_div (js_sub avgFirst avgLast) avgFirst) (Fin 100);
          halfSplitPct = js_mul (js_div (js_sub avgFirstHalf avgSecondHalf) avgFirstHalf) (Fin 100);
          s1 = score_after_fade fade
      in case calculateStats powerData of
           Inl e \<Rightarrow> Inl e
         | Inr stats \<Rightarrow>
             (let cvPct = js_mul (js_div (stdDev stats) (average stats)) (Fin 100);
                  s2 = score_after_cv s1 cvPct;
                  lost = (if js_gt fade (Fin 5)
                          then Math_round (js_mul (js_sub fade (Fin 3)) (Fin (1 / 2)))
                          else Fin 0);
                  lost_insights =
                    (if js_gt fade (Fin 5) then
                       [\<lparr> insight_type = InsightInfo,
                           message = [Lit ''Estimated '', Num lost, Lit ''w lost due to suboptimal pacing''],
                           recommendation =
                             [Lit ''True FTP potentially '', Num (js_add (classicFTP stats) lost),
                              Lit ''w with better pacing''] \<rparr>]
                     else []);
                  strat = (if js_gt fade (Fin 5) then ''positive-split''
                           else if js_lt fade (Fin (- 3)) then ''negative-split''
                           else ''even'')
              in Inr \<lparr> score = max 0 s2,
                       fadePct = Fixed 1 fade,
                       insights = fade_insights fade avgFirst @ cv_insights cvPct @ lost_insights,
                       avgFirstQuarter = Math_round avgFirst,
                       avgLastQuarter = Math_round avgLast,
                       wattsLost = lost,
                       strategy = strat \<rparr>))"

section \<open>Heart rate\<close>

text \<open>The result of \<open>calculateHeartRateStats\<close>; its \<open>average\<close>, \<open>max\<close> and \<open>min\<close> carry the prefix \<open>hr_\<close>.\<close>

record HeartRateStats =
  hr_average :: jsnum
  hr_max :: jsnum
  hr_min :: jsnum
  lthr :: jsnum
  hrDrift :: jsnum
  cardiacDrift :: jsnum

definition positive :: "jsnum \<Rightarrow> bool" where
  "positive hr = js_gt hr (Fin 0)"

definition calculateHeartRateStats :: "jsnum list \<Rightarrow> jsnum list \<Rightarrow> HeartRateStats" where
  "calculateHeartRateStats heartRateData powerData =
     (let validHR = filter positive heartRateData;
          avg = js_div (js_sum validHR) (num (length validHR));
          mx = Math_max validHR;
          mn = Math_min (filter positive validHR);
          firstQuarter = take (length heartRateData div 4) heartRateData;
          lastQuarter = drop (length heartRateData * 3 div 4) heartRateData;
          avgFirstHR = js_div (js_sum (filter positive firstQuarter))
                         (num (length (filter positive firstQuarter)));
          avgLastHR = js_div (js_sum (filter positive lastQuarter))
                        (num (length (filter positive lastQuarter)));
          drift = js_mul (js_div (js_sub avgLastHR avgFirstHR) avgFirstHR) (Fin 100);
          powerFirstQuarter = take (length powerData div 4) powerData;
          powerLastQuarter = drop (length powerData * 3 div 4) powerData;
          avgFirstPower = js_div (js_sum powerFirstQuarter) (num (length powerFirstQuarter));
          avgLastPower = js_div (js_sum powerLastQuarter) (num (length powerLastQuarter));
          powerDrop = js_sub avgFirstPower avgLastPower;
          hrIncrease = js_sub avgLastHR avgFirstHR;
          cd = (if js_gt (Math_abs powerDrop) (Fin 1)
                then js_div hrIncrease (Math_abs powerDrop) else Fin 0)
      in \<lparr> hr_average = Math_round avg,
              hr_max = mx,
              hr_min = mn,
              lthr = Math_round avg,
              hrDrift = toFixed_num 1 drift,
              cardiacDrift = toFixed_num 2 cd \<rparr>)"

section \<open>Performance grades\<close>

record PerformanceGrade =
  grade :: string
  category :: string
  minWattsPerKg :: real
  maxWattsPerKg :: "real option"
  percentile :: real
  description :: string

definition PERFORMANCE_GRADES :: "PerformanceGrade list" where
  "PERFORMANCE_GRADES =
    [\<lparr> grade = ''F'', category = ''Untrained'', minWattsPerKg = 0, maxWattsPerKg = Some 2,
        percentile = 5, description = ''New to cycling or very sedentary'' \<rparr>,
     \<lparr> grade = ''D-'', category = ''Novice'', minWattsPerKg = 2, maxWattsPerKg = Some (25 / 10),
        percentile = 15, description = ''Recreational cyclist, getting started'' \<rparr>,
     \<lparr> grade = ''D'', category = ''Novice'', minWattsPerKg = 25 / 10, maxWattsPerKg = Some 3,
        percentile = 25, description = ''Regular recreational riding'' \<rparr>,
     \<lparr> grade = ''D+'', category = ''Fair'', minWattsPerKg = 3, maxWattsPerKg = Some (32 / 10),
        percentile = 35, description = ''Developing fitness base'' \<rparr>,
     \<lparr> grade = ''C-'', category = ''Fair'', minWattsPerKg = 32 / 10, maxWattsPerKg = Some (34 / 10),
        percentile = 40, description = ''Solid recreational cyclist'' \<rparr>,
     \<lparr> grade = ''C'', category = ''Good'', minWattsPerKg = 34 / 10, maxWattsPerKg = Some (37 / 10),
        percentile = 50, description = ''Above average fitness'' \<rparr>,
     \<lparr> grade = ''C+'', category = ''Good'', minWattsPerKg = 37 / 10, maxWattsPerKg = Some 4,
        percentile = 60, description = ''Strong recreational rider'' \<rparr>,
     \<lparr> grade = ''B-'', category = ''Very Good'', minWattsPerKg = 4, maxWattsPerKg = Some (43 / 10),
        percentile = 70, description = ''Club level competitive'' \<rparr>,
     \<lparr> grade = ''B'', category = ''Very Good'', minWattsPerKg = 43 / 10, maxWattsPerKg = Some (46 / 10),
        percentile = 80, description = ''Strong club racer'' \<rparr>,
     \<lparr> grade = ''B+'', category = ''Excellent'', minWattsPerKg = 46 / 10, maxWattsPerKg = Some 5,
        percentile = 87, description = ''Regional competitive level'' \<rparr>,
     \<lparr> grade = ''A-'', category = ''Excellent'', minWattsPerKg = 5, maxWattsPerKg = Some (54 / 10),
        percentile = 93, description = ''Cat 2-3 racing level'' \<rparr>,
     \<lparr> grade = ''A'', category = ''Superior'', minWattsPerKg = 54 / 10, maxWattsPerKg = Some 6,
        percentile = 97, description = ''Cat 1-2 racing level'' \<rparr>,
     \<lparr> grade = ''A+'', category = ''World Class'', minWattsPerKg = 6, maxWattsPerKg = None,
        percentile = 99, description = ''Professional/elite level'' \<rparr>]"

text \<open>
  The result of \<open>calculateWattsPerKg\<close>; the four fields copied from the grade row carry the
  prefix \<open>wkg_\<close>.
\<close>

record WattsPerKgStats =
  classicFTPPerKg :: jsnum
  normalizedFTPPerKg :: jsnum
  averagePowerPerKg :: jsnum
  maxPowerPerKg :: jsnum
  wkg_grade :: string
  wkg_category :: string
  wkg_percentile :: real
  wkg_description :: string

text \<open>The test of the lookup loop on one row \<open>g\<close>.\<close>

definition grade_matches :: "jsnum \<Rightarrow> PerformanceGrade \<Rightarrow> bool" where
  "grade_matches ratio g =
     (js_ge ratio (Fin (minWattsPerKg g)) \<and>
      (case maxWattsPerKg g of None \<Rightarrow> True | Some m \<Rightarrow> js_lt ratio (Fin m)))"

text \<open>The loop over the rows from index \<open>0\<close>: the first matching row, else the value before the loop.\<close>

fun find_grade :: "jsnum \<Rightarrow> PerformanceGrade list \<Rightarrow> PerformanceGrade \<Rightarrow> PerformanceGrade" where
  "find_grade ratio [] dflt = dflt"
| "find_grade ratio (g # gs) dflt = (if grade_matches ratio g then g else find_grade ratio gs dflt)"

definition calculateWattsPerKg :: "Stats \<Rightarrow> jsnum \<Rightarrow> WattsPerKgStats" where
  "calculateWattsPerKg stats riderWeight =
     (let cPerKg = js_div (classicFTP stats) riderWeight;
          nPerKg = js_div (normalizedFTP stats) riderWeight;
          aPerKg = js_div (average stats) riderWeight;
          mPerKg = js_div (max_val stats) riderWeight;
          g = find_grade cPerKg PERFORMANCE_GRADES
                (PERFORMANCE_GRADES ! (length PERFORMANCE_GRADES - 1))
      in \<lparr> classicFTPPerKg = toFixed_num 2 cPerKg,
              normalizedFTPPerKg = toFixed_num 2 nPerKg,
              averagePowerPerKg = toFixed_num 2 aPerKg,
              maxPowerPerKg = toFixed_num 2 mPerKg,
              wkg_grade = grade g,
              wkg_category = category g,
              wkg_percentile = percentile g,
              wkg_description = description g \<rparr>)"

definition getPerformanceGrades :: "PerformanceGrade list" where
  "getPerformanceGrades = PERFORMANCE_GRADES"

section \<open>Strings\<close>

text \<open>
  A string is a list of 8-bit characters, read as the code units below 256. \<open>trim\<close> removes
  the white space and line terminators of that range from both ends.
\<close>

definition js_whitespace :: "char \<Rightarrow> bool" where
  "js_whitespace c = (of_char c \<in> {9, 10, 11, 12, 13, 32, 160 :: nat})"

definition trim :: "string \<Rightarrow> string" where
  "trim s = rev (dropWhile js_whitespace (rev (dropWhile js_whitespace s)))"

text \<open>\<open>s.split(c)\<close> on a one-character separator: never an empty list.\<close>

fun split :: "char \<Rightarrow> string \<Rightarrow> string list" where
  "split c [] = [[]]"
| "split c (x # xs) =
     (if x = c then [] # split c xs
      else (case split c xs of [] \<Rightarrow> [[x]] | y # ys \<Rightarrow> (x # y) # ys))"

definition lower_char :: "char \<Rightarrow> char" where
  "lower_char c =
     (let n = (of_char c :: nat)
      in if (65 \<le> n \<and> n \<le> 90) \<or> (192 \<le> n \<and> n \<le> 222 \<and> n \<noteq> 215)
         then char_of (n + 32) else c)"

definition toLowerCase :: "string \<Rightarrow> string" where
  "toLowerCase s = map lower_char s"

text \<open>\<open>s.includes(sub)\<close>.\<close>

fun js_includes :: "string \<Rightarrow> string \<Rightarrow> bool" where
  "js_includes [] sub = (sub = [])"
| "js_includes (c # cs) sub = (take (length sub) (c # cs) = sub \<or> js_includes cs sub)"

text \<open>\<open>xs.findIndex(P)\<close>: the first index whose element satisfies \<open>P\<close>, or \<open>-1\<close>.\<close>

fun findIndex_from :: "int \<Rightarrow> ('a \<Rightarrow> bool) \<Rightarrow> 'a list \<Rightarrow> int" where
  "findIndex_from i P [] = - 1"
| "findIndex_from i P (x # xs) = (if P x then i else findIndex_from (i + 1) P xs)"

definition findIndex :: "('a \<Rightarrow> bool) \<Rightarrow> 'a list \<Rightarrow> int" where
  "findIndex P xs = findIndex_from 0 P xs"

subsection \<open>\<open>parseFloat\<close>\<close>

definition is_digit :: "char \<Rightarrow> bool" where
  "is_digit c = (48 \<le> (of_char c :: nat) \<and> (of_char c :: nat) \<le> 57)"

definition digits_val :: "string \<Rightarrow> nat" where
  "digits_val ds = foldl (\<lambda>a c. 10 * a + (of_char c - 48)) 0 ds"

definition pow10 :: "int \<Rightarrow> real" where
  "pow10 e = (if 0 \<le> e then 10 ^ nat e else 1 / 10 ^ nat (- e))"

text \<open>
  The range of a double: a magnitude of at least \<open>2\<^sup>1\<^sup>0\<^sup>2\<^sup>4 - 2\<^sup>9\<^sup>7\<^sup>0\<close> rounds to an infinity
  and one of at most \<open>2\<^sup>-\<^sup>1\<^sup>0\<^sup>7\<^sup>5\<close> rounds to zero. In between the value is kept exact.
\<close>

definition to_double :: "real \<Rightarrow> jsnum" where
  "to_double m =
     (if 2 ^ 1024 - 2 ^ 970 \<le> \<bar>m\<bar> then inf_signed (m < 0)
      else if \<bar>m\<bar> \<le> 1 / 2 ^ 1075 then Fin 0
      else Fin m)"

text \<open>The exponent part \<open>e\<close>, \<open>e+\<close> or \<open>e-\<close> with at least one digit; anything else is no exponent.\<close>

definition exponent_of :: "string \<Rightarrow> int" where
  "exponent_of r =
     (case r of
        [] \<Rightarrow> 0
      | c # r1 \<Rightarrow>
          if c = CHR ''e'' \<or> c = CHR ''E'' then
            (let neg = (case r1 of [] \<Rightarrow> False | s # _ \<Rightarrow> s = CHR ''-'');
                 d = (case r1 of [] \<Rightarrow> []
                      | s # r2 \<Rightarrow> if s = CHR ''-'' \<or> s = CHR ''+'' then r2 else r1);
                 ds = takeWhile is_digit d
             in if ds = [] then 0
                else if neg then - int (digits_val ds) else int (digits_val ds))
          else 0)"

text \<open>
  \<open>parseFloat\<close>: leading white space is skipped and the longest prefix that is a decimal
  literal (a sign, \<open>Infinity\<close> or digits with an optional fraction and exponent) is the
  value; \<open>NaN\<close> when there is none.
\<close>

definition parseFloat :: "string \<Rightarrow> jsnum" where
  "parseFloat s =
     (let t = dropWhile js_whitespace s;
          neg = (case t of [] \<Rightarrow> False | c # _ \<Rightarrow> c = CHR ''-'');
          u = (case t of [] \<Rightarrow> []
               | c # r \<Rightarrow> if c = CHR ''-'' \<or> c = CHR ''+'' then r else t)
      in if take 8 u = ''Infinity'' then inf_signed neg
         else
           (let ip = takeWhile is_digit u;
                r1 = dropWhile is_digit u;
                dot = (case r1 of [] \<Rightarrow> False | c # _ \<Rightarrow> c = CHR ''.'');
                fp = (if dot then takeWhile is_digit (tl r1) else []);
                r2 = (if dot then dropWhile is_digit (tl r1) else r1)
            in if ip = [] \<and> fp = [] then NaN
               else
                 (let m = real (digits_val (ip @ fp)) * pow10 (exponent_of r2 - int (length fp))
                  in to_double (if neg then - m else m))))"

section \<open>CSV parsers\<close>

text \<open>The result of a parser; the field \<open>power\<close> is \<open>powerSeries\<close> here.\<close>

record ParsedData =
  powerSeries :: "jsnum list"
  heartRate :: "jsnum list option"
  speed :: "jsnum list option"
  distance :: "jsnum list option"
  elevation :: "jsnum list option"
  time :: "jsnum list"

text \<open>\<open>values[idx]?.trim() || '0'\<close>: a missing or blank cell reads as \<open>'0'\<close>.\<close>

definition cell :: "string list \<Rightarrow> int \<Rightarrow> string" where
  "cell values idx =
     (if 0 \<le> idx \<and> nat idx < length values
      then (let t = trim (values ! nat idx) in if t = [] then ''0'' else t)
      else ''0'')"

text \<open>
  The row loop of \<open>parseCSV\<close>, \<open>for (i = 1; i < lines.length; i++)\<close>, on the lines from index
  \<open>i\<close> on, with the arrays \<open>power\<close>, \<open>heartRate\<close> and \<open>time\<close> built so far.
\<close>

fun parseCSV_rows ::
  "int \<Rightarrow> int \<Rightarrow> int \<Rightarrow> nat \<Rightarrow> string list \<Rightarrow> jsnum list \<times> jsnum list \<times> jsnum list \<Rightarrow>
   jsnum list \<times> jsnum list \<times> jsnum list" where
  "parseCSV_rows powerIndex hrIndex timeIndex i [] acc = acc"
| "parseCSV_rows powerIndex hrIndex timeIndex i (line # rest) (pw, hr, tm) =
     (let values = split CHR '','' line;
          powerValue = parseFloat (cell values powerIndex);
          pw1 = (if \<not> isNaN powerValue \<and> js_ge powerValue (Fin 0)
                 then pw @ [Math_round powerValue] else pw);
          hr1 = (if hrIndex \<noteq> - 1 then
                   (let hrValue = parseFloat (cell values hrIndex)
                    in if \<not> isNaN hrValue \<and> js_gt hrValue (Fin 0)
                       then hr @ [Math_round hrValue] else hr @ [Fin 0])
                 else hr);
          tm1 = (if timeIndex \<noteq> - 1 then
                   (let timeValue = parseFloat (cell values timeIndex)
                    in if \<not> isNaN timeValue then tm @ [timeValue] else tm)
                 else tm @ [num (i - 1)])
      in parseCSV_rows powerIndex hrIndex timeIndex (i + 1) rest (pw1, hr1, tm1))"

text \<open>The body of the \<open>try\<close> block of \<open>parseCSV\<close>: a \<open>throw\<close> is \<open>Inl\<close>, \<open>return null\<close> is \<open>Inr None\<close>.\<close>

definition parseCSV_try :: "string \<Rightarrow> error + ParsedData option" where
  "parseCSV_try csvContent =
     (let lines = split (CHR 0x0A) (trim csvContent)
      in if length lines < 2 then Inr None
         else
           (let headers = map (\<lambda>h. toLowerCase (trim h)) (split CHR '','' (hd lines));
                powerIndex = findIndex (\<lambda>h. js_includes h ''power'' \<or> js_includes h ''watts'' \<or>
                                             js_includes h ''avg_power'') headers;
                hrIndex = findIndex (\<lambda>h. js_includes h ''heart'' \<or> js_includes h ''hr'' \<or>
                                          js_includes h ''bpm'') headers;
                timeIndex = findIndex (\<lambda>h. js_includes h ''time'' \<or> js_includes h ''elapsed'' \<or>
                                            js_includes h ''seconds'') headers
            in if powerIndex = - 1 then Inl (Error ''No power column found in CSV'')
               else
                 (case parseCSV_rows powerIndex hrIndex timeIndex 1 (tl lines) ([], [], []) of
                    (pw, hr, tm) \<Rightarrow>
                      if length pw = 0 then Inl (Error ''No valid power data found'')
                      else Inr (Some \<lparr> powerSeries = pw,
                                        heartRate = (if hrIndex \<noteq> - 1 then Some hr else None),
                                        speed = None, distance = None, elevation = None,
                                        time = tm \<rparr>))))"

text \<open>\<open>parseCSV\<close>: the \<open>catch\<close> block logs the error and returns \<open>null\<close>.\<close>

definition parseCSV :: "string \<Rightarrow> ParsedData option" where
  "parseCSV csvContent =
     (case parseCSV_try csvContent of Inl e \<Rightarrow> None | Inr r \<Rightarrow> r)"

text \<open>The row loop of \<open>parseTrainingPeaksCSV\<close>.\<close>

fun parseTrainingPeaksCSV_rows ::
  "int \<Rightarrow> int \<Rightarrow> nat \<Rightarrow> string list \<Rightarrow> jsnum list \<times> jsnum list \<times> jsnum list \<Rightarrow>
   jsnum list \<times> jsnum list \<times> jsnum list" where
  "parseTrainingPeaksCSV_rows powerIndex hrIndex i [] acc = acc"
| "parseTrainingPeaksCSV_rows powerIndex hrIndex i (line # rest) (pw, hr, tm) =
     (let values = split CHR '','' line;
          powerValue = parseFloat (cell values powerIndex)
      in if \<not> isNaN powerValue \<and> js_ge powerValue (Fin 0) then
           (let pw1 = pw @ [Math_round powerValue];
                tm1 = tm @ [num (i - 1)];
                hr1 = (if hrIndex \<noteq> - 1 then
                         (let hrValue = parseFloat (cell values hrIndex)
                          in hr @ [if \<not> isNaN hrValue \<and> js_gt hrValue (Fin 0)
                                   then Math_round hrValue else Fin 0])
                       else hr)
            in parseTrainingPeaksCSV_rows powerIndex hrIndex (i + 1) rest (pw1, hr1, tm1))
         else parseTrainingPeaksCSV_rows powerIndex hrIndex (i + 1) rest (pw, hr, tm))"

text \<open>
  \<open>parseTrainingPeaksCSV\<close>. Nothing in its \<open>try\<close> block throws: \<open>parseCSV\<close> catches its own
  errors.
\<close>

definition parseTrainingPeaksCSV :: "string \<Rightarrow> ParsedData option" where
  "parseTrainingPeaksCSV csvContent =
     (let lines = split (CHR 0x0A) (trim csvContent)
      in if length lines < 2 then None
         else
           (let headers = map trim (split CHR '','' (hd lines));
                powerIndex = findIndex (\<lambda>h. js_includes (toLowerCase h) ''power'' \<or>
                                             js_includes (toLowerCase h) ''watts'' \<or>
                                             h = ''Power (watts)'') headers;
                hrIndex = findIndex (\<lambda>h. js_includes (toLowerCase h) ''heart rate'' \<or>
                                          js_includes (toLowerCase h) ''hr'' \<or>
                                          h = ''Heart Rate (bpm)'') headers
            in if powerIndex = - 1 then parseCSV csvContent
               else
                 (case parseTrainingPeaksCSV_rows powerIndex hrIndex 1 (tl lines) ([], [], []) of
                    (pw, hr, tm) \<Rightarrow>
                      Some \<lparr> powerSeries = pw,
                              heartRate = (if hrIndex \<noteq> - 1 then Some hr else None),
                              speed = None, distance = None, elevation = None,
                              time = tm \<rparr>)))"

section \<open>The quantities the specification names\<close>

text \<open>
  The arithmetic mean of a series, and the floor-indexed first and last quarter of a series,
  as the specification describes them; the theorems below compare the results of the code
  with these.
\<close>

definition mean :: "jsnum list \<Rightarrow> jsnum" where
  "mean xs = js_div (js_sum xs) (num (length xs))"

definition first_quarter :: "'a list \<Rightarrow> 'a list" where
  "first_quarter xs = take (length xs div 4) xs"

definition last_quarter :: "'a list \<Rightarrow> 'a list" where
  "last_quarter xs = drop (length xs * 3 div 4) xs"

text \<open>
  A grade table is contiguous when the upper bound of each row is the lower bound of the next
  and the last row has no upper bound; its percentiles ascend when each row's percentile is
  below the next row's.
\<close>

fun contiguous :: "PerformanceGrade list \<Rightarrow> bool" where
  "contiguous [] = True"
| "contiguous [g] = (maxWattsPerKg g = None)"
| "contiguous (g # h # gs) = (maxWattsPerKg g = Some (minWattsPerKg h) \<and> contiguous (h # gs))"

fun percentile_ascending :: "PerformanceGrade list \<Rightarrow> bool" where
  "percentile_ascending (g # h # gs) =
     (percentile g < percentile h \<and> percentile_ascending (h # gs))"
| "percentile_ascending _ = True"

text \<open>A \<open>Stats\<close> value to grade: the statistics of the series \<open>[250, 255, 245, 260, 240]\<close>.\<close>

definition sample_stats :: Stats where
  "sample_stats =
     \<lparr> average = Fin 250, normalized = Fin 250, max_val = Fin 260, min_val = Fin 240,
        variabilityIndex = Fixed 3 (Fin 1), stdDev = Fin 7, classicFTP = Fin 238,
        normalizedFTP = Fin 238, intensityFactor = Fin 1 \<rparr>"

section \<open>Theorems\<close>

subsection \<open>CSV parsers\<close>

lemmas parse_defs = parseFloat_def js_whitespace_def is_digit_def digits_val_def pow10_def
  exponent_of_def to_double_def Let_def trim_def toLowerCase_def lower_char_def findIndex_def
  cell_def js_ge_def js_gt_def num_def char_of_def bit_0

text \<open>The generic parser never succeeds with an empty power series.\<close>

lemma parseCSV_power_nonempty:
  assumes "parseCSV csvContent = Some d"
  shows "1 \<le> length (powerSeries d)"
proof -
  have "powerSeries d \<noteq> []"
    using assms
    by (auto simp add: parseCSV_def parseCSV_try_def Let_def
          split: if_splits sum.splits prod.splits)
  then show ?thesis by (cases "powerSeries d") simp_all
qed

text \<open>
  C1. The claim is that no parser succeeds with an empty power series. On the input of a
  header \<open>Power\<close> and the one data row \<open>abc\<close>, \<open>parseTrainingPeaksCSV\<close> finds the power
  column, skips the row, and returns a result whose power series is empty.
\<close>

theorem parseTrainingPeaksCSV_empty_power:
  "parseTrainingPeaksCSV (''Power'' @ [CHR 0x0A] @ ''abc'') =
     Some \<lparr> powerSeries = [], heartRate = None, speed = None, distance = None,
             elevation = None, time = [] \<rparr>"
  by (simp add: parseTrainingPeaksCSV_def parse_defs)

text \<open>
  C3. The claim is that \<open>time\<close> (and \<open>heartRate\<close>) have the length of \<open>power\<close>. On a header
  \<open>Power\<close> and the rows \<open>250\<close> and \<open>invalid\<close>, \<open>parseCSV\<close> drops the second row from the
  power series only: the power series has one element and \<open>time\<close> has two.
\<close>

theorem parseCSV_time_longer_than_power:
  "parseCSV (''Power'' @ [CHR 0x0A] @ ''250'' @ [CHR 0x0A] @ ''invalid'') =
     Some \<lparr> powerSeries = [Fin 250], heartRate = None, speed = None, distance = None,
             elevation = None, time = [Fin 0, Fin 1] \<rparr>"
  by (simp add: parseCSV_def parseCSV_try_def parse_defs)

text \<open>
  \<open>parseTrainingPeaksCSV\<close>, in contrast, pushes to \<open>time\<close> and \<open>heartRate\<close> only for a row
  whose power value it keeps, so its series have one length.
\<close>

lemma parseTrainingPeaksCSV_rows_aligned:
  assumes "parseTrainingPeaksCSV_rows powerIndex hrIndex i rows (pw, hr, tm) = (pw', hr', tm')"
    and "length tm = length pw" and "hrIndex \<noteq> - 1 \<longrightarrow> length hr = length pw"
  shows "length tm' = length pw' \<and> (hrIndex \<noteq> - 1 \<longrightarrow> length hr' = length pw')"
  using assms
proof (induction rows arbitrary: i pw hr tm)
  case Nil
  then show ?case by simp
next
  case (Cons line rest)
  let ?v = "parseFloat (cell (split CHR '','' line) powerIndex)"
  show ?case
  proof (cases "\<not> isNaN ?v \<and> js_ge ?v (Fin 0)")
    case True
    obtain hr1 where hr1: "parseTrainingPeaksCSV_rows powerIndex hrIndex (i + 1) rest
            (pw @ [Math_round ?v], hr1, tm @ [num (i - 1)]) = (pw', hr', tm')"
      and len: "hrIndex \<noteq> - 1 \<longrightarrow> length hr1 = length hr + 1"
      using Cons.prems(1) True by (cases "hrIndex = - 1") (simp_all add: Let_def)
    show ?thesis
      by (rule Cons.IH [OF hr1]) (use Cons.prems(2,3) len in simp_all)
  next
    case False
    then have "parseTrainingPeaksCSV_rows powerIndex hrIndex (i + 1) rest (pw, hr, tm) =
               (pw', hr', tm')"
      using Cons.prems(1) by (auto simp add: Let_def)
    then show ?thesis
      by (rule Cons.IH) (use Cons.prems(2,3) in simp_all)
  qed
qed

lemma findIndex_from_none:
  "findIndex_from i P xs = - 1 \<Longrightarrow> 0 \<le> i \<Longrightarrow> \<forall>x \<in> set xs. \<not> P x"
  by (induction xs arbitrary: i) (auto split: if_splits)

lemma none_findIndex_from: "\<forall>x \<in> set xs. \<not> P x \<Longrightarrow> findIndex_from i P xs = - 1"
  by (induction xs arbitrary: i) auto

lemma includes_avg_power: "js_includes h ''avg_power'' \<Longrightarrow> js_includes h ''power''"
proof (induction h)
  case Nil
  then show ?case by simp
next
  case (Cons c cs)
  have len: "length ''avg_power'' = 9" by simp
  show ?case
  proof (cases "take 9 (c # cs) = ''avg_power''")
    case True
    then have "c # cs = ''avg_power'' @ drop 9 (c # cs)"
      by (metis append_take_drop_id)
    then obtain r where r: "c # cs = ''avg_power'' @ r" by blast
    show ?thesis unfolding r by simp
  next
    case False
    then have "js_includes cs ''avg_power''"
      using Cons.prems unfolding js_includes.simps len by blast
    then have "js_includes cs ''power''" by (rule Cons.IH)
    then show ?thesis unfolding js_includes.simps by blast
  qed
qed

text \<open>
  When \<open>parseTrainingPeaksCSV\<close> finds no power column, \<open>parseCSV\<close> finds none either: the
  fallback call returns \<open>null\<close>.
\<close>

lemma fallback_finds_no_power_column:
  assumes "findIndex (\<lambda>h. js_includes (toLowerCase h) ''power'' \<or>
                           js_includes (toLowerCase h) ''watts'' \<or>
                           h = ''Power (watts)'') (map trim cells) = - 1"
  shows "findIndex (\<lambda>h. js_includes h ''power'' \<or> js_includes h ''watts'' \<or>
                         js_includes h ''avg_power'')
           (map (\<lambda>h. toLowerCase (trim h)) cells) = - 1"
proof -
  from assms have "\<forall>h \<in> set (map trim cells).
      \<not> (js_includes (toLowerCase h) ''power'' \<or> js_includes (toLowerCase h) ''watts'' \<or>
         h = ''Power (watts)'')"
    unfolding findIndex_def by (rule findIndex_from_none) simp
  then have "\<forall>h \<in> set (map (\<lambda>h. toLowerCase (trim h)) cells).
      \<not> (js_includes h ''power'' \<or> js_includes h ''watts'' \<or> js_includes h ''avg_power'')"
    using includes_avg_power by auto
  then show ?thesis unfolding findIndex_def by (rule none_findIndex_from)
qed

lemma parseTrainingPeaksCSV_aligned:
  assumes "parseTrainingPeaksCSV csvContent = Some d"
  shows "length (time d) = length (powerSeries d) \<and>
         (case heartRate d of None \<Rightarrow> True | Some hr \<Rightarrow> length hr = length (powerSeries d))"
proof (cases "findIndex (\<lambda>h. js_includes (toLowerCase h) ''power'' \<or>
                           js_includes (toLowerCase h) ''watts'' \<or>
                           h = ''Power (watts)'')
                (map trim (split CHR '','' (hd (split (CHR 0x0A) (trim csvContent))))) = - 1")
  case True
  have "parseCSV csvContent = None"
    using fallback_finds_no_power_column [OF True]
    by (simp add: parseCSV_def parseCSV_try_def Let_def)
  with assms True show ?thesis
    by (simp add: parseTrainingPeaksCSV_def Let_def split: if_splits)
next
  case False
  with assms show ?thesis
    by (auto simp add: parseTrainingPeaksCSV_def Let_def split: if_splits prod.splits
          dest!: parseTrainingPeaksCSV_rows_aligned)
qed

subsection \<open>Statistics\<close>

text \<open>
  C9. \<open>calculateStats\<close> on the empty power series throws: the result is the error
  "Power data cannot be empty" and no \<open>Stats\<close> value.
\<close>

theorem calculateStats_empty_throws:
  "calculateStats [] = Inl (Error ''Power data cannot be empty'')"
  by (simp add: calculateStats_def)

lemma calculateStats_mean_fields:
  assumes "powerData \<noteq> []"
  shows "\<exists>s. calculateStats powerData = Inr s \<and>
           average s = Math_round (mean powerData) \<and>
           classicFTP s = Math_round (js_mul (mean powerData) (Fin (95 / 100)))"
  using assms by (simp add: calculateStats_def Let_def mean_def)

lemma calculateStats_returns:
  "powerData \<noteq> [] \<Longrightarrow> \<exists>s. calculateStats powerData = Inr s"
  by (simp add: calculateStats_def Let_def)

text \<open>
  C6. On every non-empty power series of fewer than 30 samples \<open>calculateStats\<close> returns a
  \<open>Stats\<close> value whose \<open>normalized\<close> field equals its \<open>average\<close> field.
\<close>

theorem normalized_fallback:
  assumes "powerData \<noteq> []" and "length powerData < 30"
  shows "\<exists>s. calculateStats powerData = Inr s \<and> normalized s = average s"
  using assms by (simp add: calculateStats_def Let_def)

theorem normalized_fallback_witness:
  "[Fin 250, Fin 255, Fin 245, Fin 260, Fin 240] \<noteq> [] \<and>
   length [Fin 250, Fin 255, Fin 245, Fin 260, Fin 240] < 30 \<and>
   (\<exists>s. calculateStats [Fin 250, Fin 255, Fin 245, Fin 260, Fin 240] = Inr s \<and>
        normalized s = average s)"
  using normalized_fallback [of "[Fin 250, Fin 255, Fin 245, Fin 260, Fin 240]"] by simp

text \<open>
  C2, as the code has it. On every non-empty power series \<open>calculateStats\<close> returns a
  \<open>Stats\<close> value whose \<open>classicFTP\<close> is the rounding of 0.95 times the unrounded mean of the
  series; \<open>average\<close> is the rounding of that same mean.
\<close>

theorem classicFTP_of_mean:
  assumes "powerData \<noteq> []"
  shows "\<exists>s. calculateStats powerData = Inr s \<and>
           average s = Math_round (mean powerData) \<and>
           classicFTP s = Math_round (js_mul (mean powerData) (Fin (95 / 100)))"
  using assms by (simp add: calculateStats_def Let_def mean_def)

theorem classicFTP_of_mean_witness:
  "[Fin 1, Fin 2] \<noteq> [] \<and>
   (\<exists>s. calculateStats [Fin 1, Fin 2] = Inr s \<and>
        average s = Math_round (mean [Fin 1, Fin 2]) \<and>
        classicFTP s = Math_round (js_mul (mean [Fin 1, Fin 2]) (Fin (95 / 100))))"
  using classicFTP_of_mean [of "[Fin 1, Fin 2]"] by simp

text \<open>
  C2 as stated fails on the series \<open>[1, 2]\<close>: the mean is 1.5, so \<open>average\<close> is 2 and
  \<open>classicFTP\<close> is the rounding of 1.425, which is 1, while the rounding of
  \<open>average \<times> 0.95 = 1.9\<close> is 2.
\<close>

theorem classicFTP_roundtrip_counterexample:
  "classicFTP (projr (calculateStats [Fin 1, Fin 2])) = Fin 1 \<and>
   Math_round (js_mul (average (projr (calculateStats [Fin 1, Fin 2]))) (Fin (95 / 100))) = Fin 2"
  by (simp add: calculateStats_def Let_def js_sum_def num_def)

text \<open>
  On a series of finite samples the two roundings are at most 1 apart: the mean and its
  rounding differ by at most a half.
\<close>

lemma foldl_js_add_Fin: "foldl js_add (Fin a) (map Fin xs) = Fin (a + sum_list xs)"
  by (induction xs arbitrary: a) (simp_all add: add.assoc)

lemma mean_Fin: "xs \<noteq> [] \<Longrightarrow> mean (map Fin xs) = Fin (sum_list xs / real (length xs))"
  by (simp add: mean_def js_sum_def foldl_js_add_Fin num_def)

lemma round_close:
  fixes m :: real
  shows "\<bar>\<lfloor>m * (95 / 100) + 1 / 2\<rfloor> -
          \<lfloor>real_of_int \<lfloor>m + 1 / 2\<rfloor> * (95 / 100) + 1 / 2\<rfloor>\<bar> \<le> 1"
proof -
  define a where "a = \<lfloor>m + 1 / 2\<rfloor>"
  define c where "c = \<lfloor>m * (95 / 100) + 1 / 2\<rfloor>"
  define c' where "c' = \<lfloor>real_of_int a * (95 / 100) + 1 / 2\<rfloor>"
  have a: "real_of_int a \<le> m + 1 / 2" "m + 1 / 2 < real_of_int a + 1"
    unfolding a_def by linarith+
  have c: "real_of_int c \<le> m * (95 / 100) + 1 / 2"
    "m * (95 / 100) + 1 / 2 < real_of_int c + 1"
    unfolding c_def by linarith+
  have c': "real_of_int c' \<le> real_of_int a * (95 / 100) + 1 / 2"
    "real_of_int a * (95 / 100) + 1 / 2 < real_of_int c' + 1"
    unfolding c'_def by linarith+
  have "real_of_int c < real_of_int c' + 2" "real_of_int c' < real_of_int c + 2"
    using a c c' by linarith+
  then have "c < c' + 2" "c' < c + 2" by linarith+
  then have "\<bar>c - c'\<bar> \<le> 1" by linarith
  then show ?thesis unfolding c_def c'_def a_def .
qed

lemma classicFTP_near_roundtrip:
  assumes "xs \<noteq> []"
  shows "\<exists>s c c'. calculateStats (map Fin xs) = Inr s \<and> classicFTP s = Fin (of_int c) \<and>
           Math_round (js_mul (average s) (Fin (95 / 100))) = Fin (of_int c') \<and>
           \<bar>c - c'\<bar> \<le> 1"
proof -
  from assms have ne: "map Fin xs \<noteq> []" by simp
  from calculateStats_mean_fields [OF ne] obtain s
    where s: "calculateStats (map Fin xs) = Inr s"
      "average s = Math_round (mean (map Fin xs))"
      "classicFTP s = Math_round (js_mul (mean (map Fin xs)) (Fin (95 / 100)))"
    by blast
  let ?m = "sum_list xs / real (length xs)"
  have "classicFTP s = Fin (of_int \<lfloor>?m * (95 / 100) + 1 / 2\<rfloor>)"
    using s(3) assms by (simp add: mean_Fin)
  moreover have "Math_round (js_mul (average s) (Fin (95 / 100))) =
      Fin (of_int \<lfloor>real_of_int \<lfloor>?m + 1 / 2\<rfloor> * (95 / 100) + 1 / 2\<rfloor>)"
    using s(2) assms by (simp add: mean_Fin)
  ultimately show ?thesis using s(1) round_close [of ?m] by blast
qed

subsection \<open>Pacing\<close>

lemma score_after_fade_range: "40 \<le> score_after_fade f \<and> score_after_fade f \<le> 100"
  by (simp add: score_after_fade_def Let_def)

lemma score_after_cv_range: "s1 - 20 \<le> score_after_cv s1 c \<and> score_after_cv s1 c \<le> s1"
  by (simp add: score_after_cv_def)

lemma analyzePacing_score:
  assumes "calculateStats powerData = Inr s"
  shows "\<exists>r f c. analyzePacing powerData = Inr r \<and>
           score r = max 0 (score_after_cv (score_after_fade f) c)"
  using assms by (simp add: analyzePacing_def Let_def) blast

text \<open>
  C5. On every non-empty power series \<open>analyzePacing\<close> returns a result whose \<open>score\<close> lies
  in the closed interval from 0 to 100.
\<close>

theorem pacing_score_range:
  assumes "powerData \<noteq> []"
  shows "\<exists>r. analyzePacing powerData = Inr r \<and> 0 \<le> score r \<and> score r \<le> 100"
proof -
  from assms obtain s where "calculateStats powerData = Inr s"
    using calculateStats_returns by blast
  then obtain r f c where r: "analyzePacing powerData = Inr r"
    and sc: "score r = max 0 (score_after_cv (score_after_fade f) c)"
    using analyzePacing_score by blast
  have "score_after_cv (score_after_fade f) c \<le> 100"
    using score_after_cv_range [of "score_after_fade f" c] score_after_fade_range [of f]
    by linarith
  with r sc show ?thesis by auto
qed

theorem pacing_score_range_witness:
  "[Fin 400, Fin 100, Fin 100, Fin 100] \<noteq> [] \<and>
   (\<exists>r. analyzePacing [Fin 400, Fin 100, Fin 100, Fin 100] = Inr r \<and>
        0 \<le> score r \<and> score r \<le> 100)"
  using pacing_score_range [of "[Fin 400, Fin 100, Fin 100, Fin 100]"] by simp

text \<open>
  The extreme fade of the specification, a first quarter at 400 w and the rest at 100 w: the
  fade is 75 percent and the standard deviation rounds to 130, so the score is
  \<open>100 - 30 - 20 = 50\<close>.
\<close>

lemma round_sqrt:
  fixes a :: real and n :: int
  assumes "0 < n" and "(2 * real_of_int n - 1)\<^sup>2 \<le> 4 * a"
    and "4 * a < (2 * real_of_int n + 1)\<^sup>2"
  shows "\<lfloor>sqrt a + 1 / 2\<rfloor> = n"
proof -
  have "((2 * real_of_int n - 1) / 2)\<^sup>2 \<le> a"
    using assms(2) by (simp add: power_divide)
  then have lo: "(2 * real_of_int n - 1) / 2 \<le> sqrt a"
    by (rule real_le_rsqrt)
  have up: "a < ((2 * real_of_int n + 1) / 2)\<^sup>2"
    using assms(3) by (simp add: power_divide)
  have nn: "0 \<le> (2 * real_of_int n + 1) / 2" using assms(1) by simp
  have hi: "sqrt a < (2 * real_of_int n + 1) / 2"
    using nn up by (rule real_less_lsqrt)
  show ?thesis
    by (rule floor_unique) (use lo hi in \<open>simp_all add: field_simps\<close>)
qed

lemma stdDev_extreme_fade: "Math_round (Math_sqrt (Fin 16875)) = Fin 130"
  using round_sqrt [of 130 16875] by simp

lemma pacing_extreme_fade_score:
  "analyzePacing [Fin 400, Fin 100, Fin 100, Fin 100] = Inr r \<Longrightarrow> score r = 50"
  using stdDev_extreme_fade
  by (auto simp add: analyzePacing_def calculateStats_def Let_def js_sum_def num_def js_sub_def
        js_gt_def score_after_fade_def score_after_cv_def)

subsection \<open>Heart rate\<close>

text \<open>
  C4, as the code has it. \<open>cardiacDrift\<close> is the rise of the mean valid heart rate from the
  first to the last quarter, divided by the absolute difference of the mean power of the
  first and the last quarter and rounded to 2 decimals, when that absolute difference exceeds
  1 watt (the power may have dropped or risen); otherwise it is 0.
\<close>

theorem cardiacDrift_law:
  "cardiacDrift (calculateHeartRateStats heartRateData powerData) =
     (let powerDrop = js_sub (mean (first_quarter powerData)) (mean (last_quarter powerData));
          hrIncrease = js_sub (mean (filter positive (last_quarter heartRateData)))
                         (mean (filter positive (first_quarter heartRateData)))
      in if js_gt (Math_abs powerDrop) (Fin 1)
         then toFixed_num 2 (js_div hrIncrease (Math_abs powerDrop))
         else Fin 0)"
  by (simp add: calculateHeartRateStats_def Let_def mean_def first_quarter_def last_quarter_def)

text \<open>
  C4 as stated fails when the power rises: with first-quarter power 200 and last-quarter
  power 230 the power drop is \<open>-30\<close>, which does not exceed 1, yet with heart rate 150 and
  160 the code returns \<open>10 / 30\<close> rounded, \<open>0.33\<close>, not 0.
\<close>

theorem cardiacDrift_counterexample:
  "\<not> js_gt (js_sub (mean (first_quarter [Fin 200, Fin 0, Fin 0, Fin 230]))
              (mean (last_quarter [Fin 200, Fin 0, Fin 0, Fin 230]))) (Fin 1) \<and>
   cardiacDrift (calculateHeartRateStats [Fin 150, Fin 0, Fin 0, Fin 160]
                   [Fin 200, Fin 0, Fin 0, Fin 230]) = Fin (33 / 100)"
  by (simp add: calculateHeartRateStats_def Let_def mean_def first_quarter_def last_quarter_def
        js_sum_def num_def js_sub_def js_gt_def positive_def)

subsection \<open>Segment extraction\<close>

text \<open>
  C7. When the length of the power series equals \<open>targetDurationMinutes \<times> 60\<close>,
  \<open>extractBestFTPSegment\<close> returns the power series and every optional series unchanged,
  with \<open>startTime\<close> 0 and \<open>duration\<close> the length of the power series.
\<close>

theorem extract_exact_length_unchanged:
  assumes "num (length powerData) = js_mul targetDurationMinutes (Fin 60)"
  shows "\<exists>r. extractBestFTPSegment powerData heartRateData targetDurationMinutes speedData
                distanceData elevationData = Some r \<and>
           seg_power r = powerData \<and> seg_heartRate r = heartRateData \<and>
           seg_speed r = speedData \<and> seg_distance r = distanceData \<and>
           seg_elevation r = elevationData \<and>
           startTime (segmentInfo r) = Fin 0 \<and>
           duration (segmentInfo r) = num (length powerData)"
proof -
  have ts: "js_mul targetDurationMinutes (Fin 60) = Fin (real (length powerData))"
    using assms by (simp add: num_def)
  have "js_le (num (length powerData))
          (js_mul (Fin (real (length powerData))) (Fin (125 / 100)))"
    by (simp add: num_def)
  moreover have "js_ge (num (length powerData))
          (js_mul (Fin (real (length powerData))) (Fin (75 / 100)))"
    by (simp add: num_def js_ge_def)
  ultimately show ?thesis
    by (simp add: extractBestFTPSegment_def Let_def ts)
qed

theorem extract_exact_length_unchanged_witness:
  "num (length (replicate 60 (Fin 250))) = js_mul (Fin 1) (Fin 60) \<and>
   (\<exists>r. extractBestFTPSegment (replicate 60 (Fin 250)) (Some (replicate 60 (Fin 150))) (Fin 1)
           None None None = Some r \<and>
        seg_power r = replicate 60 (Fin 250) \<and>
        seg_heartRate r = Some (replicate 60 (Fin 150)) \<and>
        seg_speed r = None \<and> seg_distance r = None \<and> seg_elevation r = None \<and>
        startTime (segmentInfo r) = Fin 0 \<and>
        duration (segmentInfo r) = num (length (replicate 60 (Fin 250))))"
proof -
  have h: "num (length (replicate 60 (Fin 250))) = js_mul (Fin 1) (Fin 60)"
    by (simp add: num_def)
  show ?thesis
    using h extract_exact_length_unchanged [OF h, of "Some (replicate 60 (Fin 150))" None None None]
    by simp
qed

subsection \<open>Performance grades\<close>

text \<open>
  C8. The grade table has 13 rows, is contiguous (each row's upper bound is the next row's
  lower bound, the last row has none) and its percentiles ascend strictly.
\<close>

theorem grades_contiguous_ascending:
  "length PERFORMANCE_GRADES = 13 \<and> contiguous PERFORMANCE_GRADES \<and>
   percentile_ascending PERFORMANCE_GRADES"
  by (simp add: PERFORMANCE_GRADES_def)

lemma find_grade_none:
  "\<forall>g \<in> set gs. \<not> grade_matches r g \<Longrightarrow> find_grade r gs d = d"
  by (induction gs) auto

lemma last_row:
  "PERFORMANCE_GRADES ! (length PERFORMANCE_GRADES - 1) =
     \<lparr> grade = ''A+'', category = ''World Class'', minWattsPerKg = 6, maxWattsPerKg = None,
        percentile = 99, description = ''Professional/elite level'' \<rparr>"
  by (simp add: PERFORMANCE_GRADES_def)

text \<open>
  C10. When the classic-FTP-per-kg ratio matches no row of the grade table,
  \<open>calculateWattsPerKg\<close> returns the last row, the highest grade: grade A+, category World
  Class, percentile 99.
\<close>

theorem no_match_gives_last_row:
  assumes "\<forall>g \<in> set PERFORMANCE_GRADES.
             \<not> grade_matches (js_div (classicFTP stats) riderWeight) g"
  shows "wkg_grade (calculateWattsPerKg stats riderWeight) = ''A+'' \<and>
         wkg_category (calculateWattsPerKg stats riderWeight) = ''World Class'' \<and>
         wkg_percentile (calculateWattsPerKg stats riderWeight) = 99 \<and>
         wkg_description (calculateWattsPerKg stats riderWeight) = ''Professional/elite level''"
proof -
  have "find_grade (js_div (classicFTP stats) riderWeight) PERFORMANCE_GRADES
          (PERFORMANCE_GRADES ! (length PERFORMANCE_GRADES - 1)) =
        PERFORMANCE_GRADES ! (length PERFORMANCE_GRADES - 1)"
    using assms by (rule find_grade_none)
  then show ?thesis
    unfolding calculateWattsPerKg_def Let_def last_row by simp
qed

theorem no_match_gives_last_row_witness:
  "js_lt (js_div (classicFTP sample_stats) (Fin (- 70))) (Fin 0) \<and>
   wkg_grade (calculateWattsPerKg sample_stats (Fin (- 70))) = ''A+'' \<and>
   wkg_category (calculateWattsPerKg sample_stats (Fin (- 70))) = ''World Class'' \<and>
   wkg_percentile (calculateWattsPerKg sample_stats (Fin (- 70))) = 99 \<and>
   wkg_description (calculateWattsPerKg sample_stats (Fin (- 70))) = ''Professional/elite level''"
proof -
  have h: "\<forall>g \<in> set PERFORMANCE_GRADES.
      \<not> grade_matches (js_div (classicFTP sample_stats) (Fin (- 70))) g"
    by (simp add: PERFORMANCE_GRADES_def grade_matches_def js_ge_def sample_stats_def)
  show ?thesis
    using no_match_gives_last_row [OF h] by (simp add: sample_stats_def)
qed

text \<open>The ratios that match no row are exactly \<open>NaN\<close> and the negative ones.\<close>

lemma no_match_iff:
  "(\<forall>g \<in> set PERFORMANCE_GRADES. \<not> grade_matches r g) \<longleftrightarrow> (isNaN r \<or> js_lt r (Fin 0))"
proof (cases r)
  case (Fin a)
  have "(\<exists>g \<in> set PERFORMANCE_GRADES. grade_matches (Fin a) g) \<longleftrightarrow> 0 \<le> a"
    unfolding PERFORMANCE_GRADES_def grade_matches_def js_ge_def
    by simp linarith
  then show ?thesis using Fin by auto
qed (simp_all add: PERFORMANCE_GRADES_def grade_matches_def js_ge_def)

end
